theory Spec2Isabelle
  imports Main
begin

section \<open>Text primitives of Python used by \<^verbatim>\<open>acos_config.py\<close>\<close>

text \<open>
  Configuration text is modelled as \<^typ>\<open>string\<close>, one \<^typ>\<open>char\<close> per character, for ASCII
  text. The elements of the list-typed module parameters are taken to be strings.
\<close>

text \<open>
  \<^verbatim>\<open>str.strip()\<close> without argument removes leading and trailing whitespace. For ASCII
  the whitespace characters of Python 3 are TAB, LF, VT, FF, CR, FS, GS, RS, US and SPACE.
\<close>

definition is_space :: "char \<Rightarrow> bool" where
  "is_space c \<longleftrightarrow>
     c \<in> {CHR 0x09, CHR 0x0A, CHR 0x0B, CHR 0x0C, CHR 0x0D,
          CHR 0x1C, CHR 0x1D, CHR 0x1E, CHR 0x1F, CHR 0x20}"

definition strip :: "string \<Rightarrow> string" where
  "strip s = rev (dropWhile is_space (rev (dropWhile is_space s)))"

text \<open>\<^verbatim>\<open>s.startswith(p)\<close>.\<close>

definition startswith :: "string \<Rightarrow> string \<Rightarrow> bool" where
  "startswith s p \<longleftrightarrow> take (length p) s = p"

text \<open>
  \<^verbatim>\<open>s.split('\n')\<close>: the pieces between line feeds; the empty string gives one empty
  piece. The first case branch is never taken, the result of the recursive call having at
  least one piece.
\<close>

fun split_nl :: "string \<Rightarrow> string list" where
  "split_nl [] = [[]]"
| "split_nl (c # cs) =
     (if c = CHR 0x0A then [] # split_nl cs
      else (case split_nl cs of [] \<Rightarrow> [[c]] | l # ls \<Rightarrow> (c # l) # ls))"

text \<open>Truthiness of an optional list parameter: \<^verbatim>\<open>None\<close> and \<^verbatim>\<open>[]\<close> are false.\<close>

fun truthy :: "'a list option \<Rightarrow> bool" where
  "truthy None = False"
| "truthy (Some xs) = (xs \<noteq> [])"

section \<open>The pure functions of the module\<close>

text \<open>
  \<^verbatim>\<open>get_list_from_params(command_lines)\<close>: the stripped lines, the empty list for a
  parameter that is absent or empty.
\<close>

definition get_list_from_params :: "string list option \<Rightarrow> string list" where
  "get_list_from_params command_lines =
     (case command_lines of
        None \<Rightarrow> []
      | Some ls \<Rightarrow> if ls \<noteq> [] then map strip ls else [])"

text \<open>The list \<^verbatim>\<open>ignore_list\<close> local to \<^verbatim>\<open>get_diff\<close>.\<close>

definition ignore_list :: "string list" where
  "ignore_list =
     ['''', ''!'', ''exit-module'', ''Show default startup-config'',
      ''Building configuration...'']"

text \<open>
  \<^verbatim>\<open>get_diff(intended_config, candidate_config, diff_ignore_lines)\<close>: the loop appends the
  items that pass the three tests, in order; the comprehension then drops the lines of
  \<^verbatim>\<open>diff_ignore_lines\<close> when that list is not empty.
\<close>

fun get_diff_loop :: "string list \<Rightarrow> string list \<Rightarrow> string list \<Rightarrow> string list" where
  "get_diff_loop [] candidate_config diff = diff"
| "get_diff_loop (item # rest) candidate_config diff =
     get_diff_loop rest candidate_config
       (if \<not> startswith item ''!'' then
          (if item \<notin> set candidate_config \<and> item \<notin> set ignore_list
           then diff @ [item] else diff)
        else diff)"

definition get_diff :: "string list \<Rightarrow> string list \<Rightarrow> string list \<Rightarrow> string list" where
  "get_diff intended_config candidate_config diff_ignore_lines =
     (let diff = get_diff_loop intended_config candidate_config []
      in if diff_ignore_lines \<noteq> []
         then filter (\<lambda>x. x \<notin> set diff_ignore_lines) diff
         else diff)"

text \<open>
  \<^verbatim>\<open>configuration_to_list(configuration)\<close>, applied to the text \<^verbatim>\<open>configuration[0]\<close>:
  the test for the comment marker is made on the raw line, the line is stripped afterwards.
\<close>

fun sanitize_loop :: "string list \<Rightarrow> string list \<Rightarrow> string list" where
  "sanitize_loop [] sanitized_config_list = sanitized_config_list"
| "sanitize_loop (line # rest) sanitized_config_list =
     sanitize_loop rest
       (if \<not> startswith line ''!'' then sanitized_config_list @ [strip line]
        else sanitized_config_list)"

definition configuration_to_list :: "string \<Rightarrow> string list" where
  "configuration_to_list configuration0 = sanitize_loop (split_nl configuration0) []"

text \<open>
  The last statements of \<^verbatim>\<open>main\<close>: \<^verbatim>\<open>diff = list(set(after) - set(before))\<close> and the flag
  \<^verbatim>\<open>len(diff) != 0\<close>.
\<close>

definition final_changed :: "string list \<Rightarrow> string list \<Rightarrow> bool" where
  "final_changed before_config_list after_config_list \<longleftrightarrow>
     set after_config_list - set before_config_list \<noteq> {}"

section \<open>The module, its collaborators and the run\<close>

text \<open>
  The parameters of the module after validation by \<^verbatim>\<open>AnsibleModule\<close>, with the two
  attributes \<^verbatim>\<open>check_mode\<close> and \<^verbatim>\<open>_diff\<close> of the module object. The parameters
  \<^verbatim>\<open>src\<close>, \<^verbatim>\<open>match\<close>, \<^verbatim>\<open>replace\<close>, \<^verbatim>\<open>running_config\<close> and \<^verbatim>\<open>backup_options\<close> are not
  read by \<^verbatim>\<open>main\<close>.
\<close>

record params =
  lines :: "string list option"
  intended_config :: "string list option"
  parents :: "string list option"
  before :: "string list option"
  after :: "string list option"
  multiline_delimiter :: string
  defaults :: bool
  backup :: bool
  save_when :: string
  diff_against :: "string option"
  diff_ignore_lines :: "string list option"
  file_path :: "string option"
  check_mode :: bool
  diff_mode :: bool

text \<open>
  What \<^verbatim>\<open>main\<close> imports and does not define is a parameter of the model: the device
  behind \<^verbatim>\<open>run_commands\<close>, \<^verbatim>\<open>get_config\<close> and \<^verbatim>\<open>connection.edit_config\<close>, with a state of
  type \<^typ>\<open>'d\<close>; the file system behind \<^verbatim>\<open>open(...).readlines()\<close>, where \<^term>\<open>None\<close> is
  an \<^verbatim>\<open>IOError\<close>; and the class \<^verbatim>\<open>NetworkConfig\<close>, of which the module uses the text
  \<^verbatim>\<open>dumps(candidate_obj, 'raw')\<close> after \<^verbatim>\<open>add(lines, parents=parents)\<close> and the property
  \<^verbatim>\<open>sha1\<close> of an object built from \<^verbatim>\<open>contents\<close> and \<^verbatim>\<open>ignore_lines\<close>. The device answers
  every command: failures of the session are not modelled.
\<close>

record 'd env =
  run_command :: "string \<Rightarrow> 'd \<Rightarrow> string \<times> 'd"
  edit_config :: "string list \<Rightarrow> 'd \<Rightarrow> 'd"
  get_config :: "bool \<Rightarrow> 'd \<Rightarrow> string \<times> 'd"
  open_readlines :: "string \<Rightarrow> string list option"
  network_config_dumps :: "string list \<Rightarrow> string list \<Rightarrow> string"
  network_config_sha1 :: "string \<Rightarrow> string list option \<Rightarrow> string"

text \<open>
  The calls made to the collaborators are recorded in order, and so are the warnings
  given to \<^verbatim>\<open>module.warn\<close>; a warning is recorded by its kind and its lines, not by its
  formatted text. \<^verbatim>\<open>fail_json\<close> ends the run with a failure.
\<close>

datatype call =
    RunCommands "string list"
  | EditConfig "string list"
  | GetConfig bool
  | Backup string

datatype warning = NotInRunningConfig "string list" | SkippingWriteMemory

datatype failure = MultilineDelimiter | FileNotFound

record 'd world =
  device :: 'd
  calls :: "call list"
  warnings :: "warning list"

text \<open>The dictionary \<^verbatim>\<open>result\<close>; a key that is not set is \<^term>\<open>None\<close>.\<close>

record result =
  changed :: bool
  result_warnings :: "string list"
  backup_contents :: "string option"
  commands :: "string list option"
  updates :: "string list option"
  success :: "bool option"
  failed_diff_lines_between_intended_candidate :: "string list option"
  diff_against_found :: "string option"
  startup_diff :: "string list option option"

definition opt_list :: "'a list option \<Rightarrow> 'a list" where
  "opt_list xs = (case xs of None \<Rightarrow> [] | Some ys \<Rightarrow> ys)"

text \<open>\<^verbatim>\<open>run_commands(module, commands)\<close>: one answer for each command, in order.\<close>

fun run_all :: "'d env \<Rightarrow> string list \<Rightarrow> 'd \<Rightarrow> string list \<times> 'd" where
  "run_all env [] d = ([], d)"
| "run_all env (c # cs) d =
     (let (out, d1) = run_command env c d;
          (outs, d2) = run_all env cs d1
      in (out # outs, d2))"

definition run_commands :: "'d env \<Rightarrow> string list \<Rightarrow> 'd world \<Rightarrow> string list \<times> 'd world" where
  "run_commands env cmds w =
     (let (outs, d') = run_all env cmds (device w)
      in (outs, w\<lparr>device := d', calls := calls w @ [RunCommands cmds]\<rparr>))"

text \<open>\<^verbatim>\<open>configuration_to_list(run_commands(module, command))\<close>.\<close>

definition show_config :: "'d env \<Rightarrow> string \<Rightarrow> 'd world \<Rightarrow> string list \<times> 'd world" where
  "show_config env command w =
     (let (outs, w') = run_commands env [command] w
      in (configuration_to_list (outs ! 0), w'))"

definition warn :: "warning \<Rightarrow> 'd world \<Rightarrow> 'd world" where
  "warn msg w = w\<lparr>warnings := warnings w @ [msg]\<rparr>"

text \<open>\<^verbatim>\<open>check_args(module, warnings)\<close>: the failure, if any.\<close>

definition check_args :: "params \<Rightarrow> failure option" where
  "check_args m =
     (if multiline_delimiter m \<noteq> [] then
        (if length (multiline_delimiter m) \<noteq> 2 then Some MultilineDelimiter else None)
      else None)"

definition edit_config_or_macro :: "'d env \<Rightarrow> string list \<Rightarrow> 'd world \<Rightarrow> 'd world" where
  "edit_config_or_macro env cmds w =
     w\<lparr>device := edit_config env cmds (device w), calls := calls w @ [EditConfig cmds]\<rparr>"

definition get_candidate_config :: "'d env \<Rightarrow> params \<Rightarrow> string" where
  "get_candidate_config env m =
     (if truthy (lines m) then
        network_config_dumps env (opt_list (lines m))
          (if truthy (parents m) then opt_list (parents m) else [])
      else [])"

definition get_intended_config :: "params \<Rightarrow> string list" where
  "get_intended_config m = map strip (opt_list (intended_config m))"

definition write_memory :: string where
  "write_memory = ''write memory'' @ [CHR 0x0D]"

definition save_config :: "'d env \<Rightarrow> params \<Rightarrow> 'd world \<Rightarrow> 'd world" where
  "save_config env m w =
     (if \<not> check_mode m then snd (run_commands env [write_memory] w)
      else warn SkippingWriteMemory w)"

subsection \<open>The steps of \<^verbatim>\<open>main\<close>\<close>

text \<open>
  Lines 344 to 355: the commands of the file, one call each, between \<^verbatim>\<open>configure\<close> and
  \<^verbatim>\<open>exit\<close>. The file is opened and read before the first of these calls.
\<close>

fun file_loop :: "'d env \<Rightarrow> string list \<Rightarrow> 'd world \<Rightarrow> 'd world" where
  "file_loop env [] w = w"
| "file_loop env (line # rest) w =
     file_loop env rest
       (if \<not> startswith line ''!'' then snd (run_commands env [strip line] w) else w)"

definition apply_file :: "'d env \<Rightarrow> params \<Rightarrow> 'd world \<Rightarrow> failure option \<times> 'd world" where
  "apply_file env m w =
     (case file_path m of
        None \<Rightarrow> (None, w)
      | Some path \<Rightarrow>
          if path = [] then (None, w)
          else (case open_readlines env path of
                  None \<Rightarrow> (Some FileNotFound, w)
                | Some command_lines \<Rightarrow>
                    let w1 = snd (run_commands env [''configure''] w);
                        w2 = file_loop env command_lines w1;
                        w3 = snd (run_commands env [''exit''] w2)
                    in (None, w3)))"

text \<open>Lines 357 to 362; \<^verbatim>\<open>flags\<close> is \<^verbatim>\<open>'with-default'\<close> exactly when \<^verbatim>\<open>defaults\<close> is set.\<close>

definition backup_step :: "'d env \<Rightarrow> params \<Rightarrow> result \<times> 'd world \<Rightarrow> result \<times> 'd world" where
  "backup_step env m rw =
     (let (r, w) = rw in
      if backup m \<or> (diff_mode m \<and> diff_against m = Some ''running'') then
        let (contents, d') = get_config env (defaults m) (device w);
            w1 = w\<lparr>device := d', calls := calls w @ [GetConfig (defaults m)]\<rparr>
        in if backup m
           then (r\<lparr>backup_contents := Some contents\<rparr>,
                 w1\<lparr>calls := calls w1 @ [Backup contents]\<rparr>)
           else (r, w1)
      else (r, w))"

text \<open>Lines 364 to 386.\<close>

definition apply_lines :: "'d env \<Rightarrow> params \<Rightarrow> result \<times> 'd world \<Rightarrow> result \<times> 'd world" where
  "apply_lines env m rw =
     (let (r, w) = rw in
      if truthy (lines m) then
        let candidate = get_candidate_config env m;
            config_diff = candidate
        in if config_diff \<noteq> [] then
             let commands0 = split_nl config_diff;
                 commands1 = (if truthy (before m) then opt_list (before m) @ commands0
                              else commands0);
                 commands2 = (if truthy (after m) then commands1 @ opt_list (after m)
                              else commands1);
                 r1 = r\<lparr>commands := Some commands2, updates := Some commands2\<rparr>
             in if \<not> check_mode m then
                  (if commands2 \<noteq> []
                   then (r1\<lparr>changed := True\<rparr>, edit_config_or_macro env commands2 w)
                   else (r1, w))
                else (r1, w)
           else (r, w)
      else (r, w))"

text \<open>
  Lines 330 to 386: the result and the world after the candidate has been applied,
  with \<^verbatim>\<open>before_config_list\<close>, or the failure.
\<close>

definition initial_result :: result where
  "initial_result =
     \<lparr>changed = False, result_warnings = [], backup_contents = None, commands = None,
      updates = None, success = None,
      failed_diff_lines_between_intended_candidate = None,
      diff_against_found = None, startup_diff = None\<rparr>"

definition main_apply ::
  "'d env \<Rightarrow> params \<Rightarrow> 'd \<Rightarrow> (failure + string list \<times> result) \<times> 'd world" where
  "main_apply env m d0 =
     (let w0 = \<lparr>device = d0, calls = [], warnings = []\<rparr> in
      case check_args m of
        Some e \<Rightarrow> (Inl e, w0)
      | None \<Rightarrow>
          let (before_config_list, w1) = show_config env ''show running-config'' w0 in
          case apply_file env m w1 of
            (Some e, w2) \<Rightarrow> (Inl e, w2)
          | (None, w2) \<Rightarrow>
              let (r3, w3) = backup_step env m (initial_result, w2);
                  (r4, w4) = apply_lines env m (r3, w3)
              in (Inr (before_config_list, r4), w4))"

text \<open>
  Lines 389 to 417: the two snapshots, the warning for the lines that are not in the
  running configuration, and the check of \<^verbatim>\<open>intended_config\<close>.
\<close>

definition reconcile ::
  "'d env \<Rightarrow> params \<Rightarrow> result \<times> 'd world
     \<Rightarrow> (string list \<times> string list \<times> string list) \<times> result \<times> 'd world" where
  "reconcile env m rw =
     (let (r, w) = rw;
          (running_config_list, w1) = show_config env ''show running-config'' w;
          (startup_config_list, w2) = show_config env ''show startup-config'' w1;
          candidate_lines = get_list_from_params (lines m);
          diff_ignore_lines_list = get_list_from_params (diff_ignore_lines m);
          difference = get_diff candidate_lines running_config_list diff_ignore_lines_list;
          w3 = (if length difference \<noteq> 0 then warn (NotInRunningConfig difference) w2
                else w2);
          r1 = (if truthy (intended_config m) then
                  let intended_config_list = get_intended_config m;
                      found_diff = get_diff intended_config_list candidate_lines
                                     diff_ignore_lines_list
                  in if length found_diff \<noteq> 0
                     then r\<lparr>success := Some False,
                            failed_diff_lines_between_intended_candidate := Some found_diff\<rparr>
                     else r\<lparr>success := Some True\<rparr>
                else r)
      in ((running_config_list, startup_config_list, diff_ignore_lines_list), r1, w3))"

text \<open>Lines 422 to 436.\<close>

definition save_policy :: "'d env \<Rightarrow> params \<Rightarrow> result \<times> 'd world \<Rightarrow> 'd world" where
  "save_policy env m rw =
     (let (r, w) = rw in
      if save_when m = ''always'' then save_config env m w
      else if save_when m = ''modified'' then
        let (output, w1) =
              run_commands env [''show running-config'', ''show startup-config''] w;
            running_sha1 = network_config_sha1 env (output ! 0) (diff_ignore_lines m);
            startup_sha1 = network_config_sha1 env (output ! 1) (diff_ignore_lines m)
        in if running_sha1 \<noteq> startup_sha1 then save_config env m w1 else w1
      else if save_when m = ''changed'' \<and> changed r then save_config env m w
      else w)"

text \<open>Lines 438 to 453.\<close>

definition startup_diff_step ::
  "params \<Rightarrow> string list \<Rightarrow> string list \<Rightarrow> string list \<Rightarrow> result \<Rightarrow> result" where
  "startup_diff_step m startup_config_list running_config_list diff_ignore_lines_list r =
     (if diff_against m = Some ''startup'' then
        let difference_with_startup_config =
              get_diff startup_config_list running_config_list diff_ignore_lines_list
        in if length difference_with_startup_config \<noteq> 0
           then r\<lparr>diff_against_found := Some ''yes'', changed := True,
                  startup_diff := Some (Some difference_with_startup_config)\<rparr>
           else r\<lparr>diff_against_found := Some ''no'', changed := False,
                  startup_diff := Some None\<rparr>
      else r)"

text \<open>
  Lines 389 to 463, from what \<^term>\<open>main_apply\<close> returns to the result given to
  \<^verbatim>\<open>exit_json\<close>.
\<close>

definition main_finish ::
  "'d env \<Rightarrow> params \<Rightarrow> string list \<Rightarrow> result \<times> 'd world \<Rightarrow> result \<times> 'd world" where
  "main_finish env m before_config_list rw =
     (let ((running_config_list, startup_config_list, diff_ignore_lines_list), r5, w5) =
            reconcile env m rw;
          w6 = save_policy env m (r5, w5);
          r7 = startup_diff_step m startup_config_list running_config_list
                 diff_ignore_lines_list r5;
          (after_config_list, w8) = show_config env ''show running-config'' w6
      in (r7\<lparr>changed := final_changed before_config_list after_config_list\<rparr>, w8))"

definition main :: "'d env \<Rightarrow> params \<Rightarrow> 'd \<Rightarrow> (failure + result) \<times> 'd world" where
  "main env m d0 =
     (case main_apply env m d0 of
        (Inl e, w) \<Rightarrow> (Inl e, w)
      | (Inr (before_config_list, r), w) \<Rightarrow>
          (let (r', w') = main_finish env m before_config_list (r, w) in (Inr r', w')))"

section \<open>What a run is observed by\<close>

text \<open>
  The save command reaches the device only through \<^term>\<open>save_config\<close>, which either
  runs \<^verbatim>\<open>write memory\<close> or, in check mode, records its warning: the number of each in a
  world counts the calls of \<^term>\<open>save_config\<close>.
\<close>

definition persist_count :: "'d world \<Rightarrow> nat" where
  "persist_count w = length (filter (\<lambda>c. c = RunCommands [write_memory]) (calls w))"

definition skip_count :: "'d world \<Rightarrow> nat" where
  "skip_count w = length (filter (\<lambda>x. x = SkippingWriteMemory) (warnings w))"

text \<open>The file named by \<^verbatim>\<open>file_path\<close>, if one is named, can be opened and read.\<close>

definition file_readable :: "'d env \<Rightarrow> params \<Rightarrow> bool" where
  "file_readable env m \<longleftrightarrow>
     (case file_path m of
        None \<Rightarrow> True
      | Some path \<Rightarrow> path = [] \<or> open_readlines env path \<noteq> None)"

text \<open>
  The conditions of lines 364 to 384 under which the commands are sent to the device, and
  the commands built at lines 370 to 376.
\<close>

definition pushed :: "'d env \<Rightarrow> params \<Rightarrow> bool" where
  "pushed env m \<longleftrightarrow> truthy (lines m) \<and> get_candidate_config env m \<noteq> [] \<and> \<not> check_mode m"

definition built_commands :: "'d env \<Rightarrow> params \<Rightarrow> string list" where
  "built_commands env m =
     opt_list (before m) @ split_nl (get_candidate_config env m) @ opt_list (after m)"

text \<open>The value \<^verbatim>\<open>found_diff\<close> of line 407.\<close>

definition intent_diff :: "params \<Rightarrow> string list" where
  "intent_diff m =
     get_diff (get_intended_config m) (get_list_from_params (lines m))
       (get_list_from_params (diff_ignore_lines m))"

text \<open>The conditions of lines 422 to 435 under which \<^term>\<open>save_config\<close> is called.\<close>

definition save_decision :: "'d env \<Rightarrow> params \<Rightarrow> result \<times> 'd world \<Rightarrow> bool" where
  "save_decision env m rw \<longleftrightarrow>
     (if save_when m = ''always'' then True
      else if save_when m = ''modified'' then
        (let output = fst (run_commands env [''show running-config'', ''show startup-config'']
                             (snd rw))
         in network_config_sha1 env (output ! 0) (diff_ignore_lines m)
              \<noteq> network_config_sha1 env (output ! 1) (diff_ignore_lines m))
      else save_when m = ''changed'' \<and> changed (fst rw))"


section \<open>A sample device\<close>

text \<open>
  A small environment on which the model is run at concrete inputs. The device holds its
  running and its startup configuration as lists of lines; a command \<^verbatim>\<open>no c\<close> removes the
  line \<^verbatim>\<open>c\<close> from the running configuration, any other configuration command adds its
  line unless it is there already, and \<^verbatim>\<open>write memory\<close> copies the running configuration
  to the startup configuration. One file exists. The candidate text is the parents and the
  lines joined by line feeds, and the fingerprint of a text is the text.
\<close>

fun join_nl :: "string list \<Rightarrow> string" where
  "join_nl [] = []"
| "join_nl [l] = l"
| "join_nl (l # ls) = l @ CHR 0x0A # join_nl ls"

type_synonym lab = "string list \<times> string list"

definition lab_run_command :: "string \<Rightarrow> lab \<Rightarrow> string \<times> lab" where
  "lab_run_command c d =
     (if c = ''show running-config'' then (join_nl (fst d), d)
      else if c = ''show startup-config'' then (join_nl (snd d), d)
      else if c = write_memory then ([], (fst d, fst d))
      else if c = ''configure'' \<or> c = ''exit'' then ([], d)
      else if startswith c ''no '' then ([], (removeAll (drop 3 c) (fst d), snd d))
      else if c \<in> set (fst d) then ([], d)
      else ([], (fst d @ [c], snd d)))"

definition lab_env :: "lab env" where
  "lab_env =
     \<lparr>run_command = lab_run_command,
      edit_config = (\<lambda>cmds d. fold (\<lambda>c d'. snd (lab_run_command c d')) cmds d),
      get_config = (\<lambda>flag d. (join_nl (fst d), d)),
      open_readlines = (\<lambda>path. if path = ''slb.txt''
                         then Some [''!slb'' @ [CHR 0x0A], '' slb server s1 10.0.0.1'' @ [CHR 0x0A]]
                         else None),
      network_config_dumps = (\<lambda>ls ps. join_nl (ps @ ls)),
      network_config_sha1 = (\<lambda>contents ign. contents)\<rparr>"

text \<open>The parameters with the defaults of \<^verbatim>\<open>argument_spec\<close>, outside check mode.\<close>

definition default_params :: params where
  "default_params =
     \<lparr>lines = None, intended_config = None, parents = None, before = None, after = None,
      multiline_delimiter = ''/n'', defaults = False, backup = False, save_when = ''never'',
      diff_against = None, diff_ignore_lines = None, file_path = None,
      check_mode = False, diff_mode = False\<rparr>"

section \<open>Properties of the text primitives\<close>

lemma get_diff_loop_filter:
  "get_diff_loop xs cand acc =
     acc @ filter (\<lambda>L. \<not> startswith L ''!'' \<and> L \<notin> set cand \<and> L \<notin> set ignore_list) xs"
  by (induction xs arbitrary: acc) simp_all

lemma get_diff_filter:
  "get_diff expected actual ign =
     filter (\<lambda>L. \<not> startswith L ''!'' \<and> L \<notin> set ignore_list \<and> L \<notin> set ign
                  \<and> L \<notin> set actual) expected"
proof (cases "ign = []")
  case True
  then show ?thesis
    by (simp add: get_diff_def get_diff_loop_filter conj_commute)
next
  case False
  then show ?thesis
    by (simp add: get_diff_def get_diff_loop_filter) meson
qed

lemma sanitize_loop_map_filter:
  "sanitize_loop ls acc = acc @ map strip (filter (\<lambda>l. \<not> startswith l ''!'') ls)"
  by (induction ls arbitrary: acc) simp_all

lemma configuration_to_list_map_filter:
  "configuration_to_list txt = map strip (filter (\<lambda>l. \<not> startswith l ''!'') (split_nl txt))"
  by (simp add: configuration_to_list_def sanitize_loop_map_filter)

lemma strip_not_ends_space: "is_space c \<Longrightarrow> strip s \<noteq> xs @ [c]"
proof
  assume sp: "is_space c" and eq: "strip s = xs @ [c]"
  from eq have "dropWhile is_space (rev (dropWhile is_space s)) = c # rev xs"
    by (simp add: strip_def rev_swap)
  then have "\<not> is_space c"
    by (metis hd_dropWhile list.discI list.sel(1))
  with sp show False by simp
qed

lemma strip_leading_space_bang:
  assumes "ws \<noteq> []" and "\<forall>c \<in> set ws. is_space c"
  shows "startswith (strip (ws @ CHR ''!'' # rest)) ''!''"
proof -
  have nb: "\<not> is_space CHR ''!''" by (simp add: is_space_def)
  have d: "dropWhile is_space (ws @ CHR ''!'' # rest) = CHR ''!'' # rest"
    using assms(2) nb by (simp add: dropWhile_append)
  have "\<exists>ys. dropWhile is_space (rev (CHR ''!'' # rest)) = ys @ [CHR ''!'']"
    using nb by (simp add: dropWhile_append)
  then obtain ys where "dropWhile is_space (rev (CHR ''!'' # rest)) = ys @ [CHR ''!'']" ..
  then have "strip (ws @ CHR ''!'' # rest) = CHR ''!'' # rev ys"
    by (simp add: strip_def d)
  then show ?thesis by (simp add: startswith_def)
qed

section \<open>Properties of the steps\<close>

lemma split_nl_not_Nil: "split_nl s \<noteq> []"
  by (induction s) (auto split: list.splits)

lemma run_commands_single:
  "run_commands env [c] w =
     ([fst (run_command env c (device w))],
      w\<lparr>device := snd (run_command env c (device w)), calls := calls w @ [RunCommands [c]]\<rparr>)"
  by (simp add: run_commands_def case_prod_beta)

lemma run_commands_calls: "calls (snd (run_commands env cmds w)) = calls w @ [RunCommands cmds]"
  by (simp add: run_commands_def case_prod_beta)

lemma run_commands_warnings: "warnings (snd (run_commands env cmds w)) = warnings w"
  by (simp add: run_commands_def case_prod_beta)

lemma show_config_eq:
  "show_config env c w =
     (configuration_to_list (fst (run_command env c (device w))),
      w\<lparr>device := snd (run_command env c (device w)), calls := calls w @ [RunCommands [c]]\<rparr>)"
  by (simp add: show_config_def run_commands_single)

lemma write_memory_not_stripped: "strip s \<noteq> write_memory"
  unfolding write_memory_def by (rule strip_not_ends_space) (simp add: is_space_def)

lemma persist_count_run_commands:
  "persist_count (snd (run_commands env cmds w)) =
     persist_count w + (if cmds = [write_memory] then 1 else 0)"
  by (simp add: persist_count_def run_commands_calls)

lemma skip_count_run_commands: "skip_count (snd (run_commands env cmds w)) = skip_count w"
  by (simp add: skip_count_def run_commands_warnings)

lemma file_loop_counts:
  "persist_count (file_loop env ls w) = persist_count w \<and>
   skip_count (file_loop env ls w) = skip_count w"
  by (induction ls arbitrary: w)
     (simp_all add: persist_count_run_commands skip_count_run_commands write_memory_not_stripped)

lemma apply_file_counts:
  "apply_file env m w = (None, w') \<Longrightarrow>
     persist_count w' = persist_count w \<and> skip_count w' = skip_count w"
  by (auto simp: apply_file_def Let_def persist_count_run_commands skip_count_run_commands
        file_loop_counts write_memory_def split: option.splits if_splits)

lemma apply_file_ok:
  "file_readable env m \<Longrightarrow> fst (apply_file env m w) = None"
  by (auto simp: apply_file_def file_readable_def Let_def split: option.splits)

lemma backup_step_counts:
  "persist_count (snd (backup_step env m (r, w))) = persist_count w \<and>
   skip_count (snd (backup_step env m (r, w))) = skip_count w"
  by (simp add: backup_step_def Let_def case_prod_beta persist_count_def skip_count_def)

lemma backup_step_result:
  "fst (backup_step env m (r, w)) =
     (if backup m then r\<lparr>backup_contents := Some (fst (get_config env (defaults m) (device w)))\<rparr>
      else r)"
  by (simp add: backup_step_def Let_def case_prod_beta)

lemma truthy_opt_list: "\<not> truthy xs \<Longrightarrow> opt_list xs = []"
  by (cases xs) (simp_all add: opt_list_def)

lemma apply_lines_result:
  "fst (apply_lines env m (r, w)) =
     (if truthy (lines m) \<and> get_candidate_config env m \<noteq> [] then
        r\<lparr>commands := Some (built_commands env m), updates := Some (built_commands env m),
          changed := (if check_mode m then changed r else True)\<rparr>
      else r)"
  by (auto simp: apply_lines_def Let_def built_commands_def truthy_opt_list split_nl_not_Nil)

lemma apply_lines_world:
  "snd (apply_lines env m (r, w)) =
     (if pushed env m then edit_config_or_macro env (built_commands env m) w else w)"
  by (auto simp: apply_lines_def Let_def built_commands_def truthy_opt_list split_nl_not_Nil
        pushed_def)

lemma apply_lines_counts:
  "persist_count (snd (apply_lines env m (r, w))) = persist_count w \<and>
   skip_count (snd (apply_lines env m (r, w))) = skip_count w"
  by (simp add: apply_lines_world edit_config_or_macro_def persist_count_def skip_count_def)

lemma main_apply_Inr:
  assumes "check_args m = None" and "file_readable env m"
  shows "\<exists>b r w. main_apply env m d0 = (Inr (b, r), w)"
  using assms apply_file_ok [OF assms(2)]
  by (auto simp: main_apply_def Let_def case_prod_beta split: prod.splits option.splits)

lemma main_apply_facts:
  assumes "main_apply env m d0 = (Inr (b, r), w)"
  shows "changed r = pushed env m"
    and "commands r =
           (if truthy (lines m) \<and> get_candidate_config env m \<noteq> []
            then Some (built_commands env m) else None)"
    and "success r = None"
    and "failed_diff_lines_between_intended_candidate r = None"
    and "diff_against_found r = None"
    and "startup_diff r = None"
    and "b = configuration_to_list (fst (run_command env ''show running-config'' d0))"
  using assms
  by (auto simp: main_apply_def Let_def case_prod_beta show_config_eq apply_lines_result
        backup_step_result initial_result_def pushed_def
      split: prod.splits option.splits if_splits)

lemma show_config_counts:
  "persist_count (snd (show_config env ''show running-config'' w)) = persist_count w"
  "skip_count (snd (show_config env ''show running-config'' w)) = skip_count w"
  by (simp_all add: show_config_eq persist_count_def skip_count_def write_memory_def)

lemma warn_counts:
  "persist_count (warn x w) = persist_count w"
  "skip_count (warn x w) = skip_count w + (if x = SkippingWriteMemory then 1 else 0)"
  by (simp_all add: warn_def persist_count_def skip_count_def)

lemma main_apply_counts:
  assumes "main_apply env m d0 = (Inr (b, r), w)"
  shows "persist_count w = 0 \<and> skip_count w = 0"
proof -
  let ?w0 = "\<lparr>device = d0, calls = [], warnings = []\<rparr>"
  let ?w1 = "snd (show_config env ''show running-config'' ?w0)"
  obtain e w2 where f: "apply_file env m ?w1 = (e, w2)"
    by (cases "apply_file env m ?w1")
  with assms have e: "e = None"
    and w: "w = snd (apply_lines env m (backup_step env m (initial_result, w2)))"
    by (auto simp: main_apply_def Let_def case_prod_beta split: prod.splits option.splits)
  have "persist_count ?w1 = 0 \<and> skip_count ?w1 = 0"
    by (simp add: show_config_counts) (simp add: persist_count_def skip_count_def)
  with apply_file_counts [OF f [unfolded e]] have "persist_count w2 = 0 \<and> skip_count w2 = 0"
    by simp
  then show ?thesis
    unfolding w
    using apply_lines_counts [of env m "fst (backup_step env m (initial_result, w2))"
                               "snd (backup_step env m (initial_result, w2))"]
          backup_step_counts [of env m initial_result w2]
    by simp
qed

lemma show_config_any_counts:
  "c \<noteq> write_memory \<Longrightarrow> persist_count (snd (show_config env c w)) = persist_count w"
  "skip_count (snd (show_config env c w)) = skip_count w"
  by (simp_all add: show_config_eq persist_count_def skip_count_def)

lemma reconcile_lists:
  "fst (reconcile env m (r, w)) =
     (configuration_to_list (fst (run_command env ''show running-config'' (device w))),
      configuration_to_list (fst (run_command env ''show startup-config''
         (snd (run_command env ''show running-config'' (device w))))),
      get_list_from_params (diff_ignore_lines m))"
  by (simp add: reconcile_def Let_def show_config_eq)

lemma reconcile_result:
  "fst (snd (reconcile env m (r, w))) =
     (if truthy (intended_config m) then
        (if intent_diff m \<noteq> []
         then r\<lparr>success := Some False,
                failed_diff_lines_between_intended_candidate := Some (intent_diff m)\<rparr>
         else r\<lparr>success := Some True\<rparr>)
      else r)"
  by (simp add: reconcile_def Let_def case_prod_beta intent_diff_def)

lemma reconcile_counts:
  "persist_count (snd (snd (reconcile env m (r, w)))) = persist_count w"
  "skip_count (snd (snd (reconcile env m (r, w)))) = skip_count w"
  by (simp_all add: reconcile_def Let_def case_prod_beta warn_counts show_config_any_counts
        write_memory_def)

lemma reconcile_facts:
  assumes "reconcile env m (r, w) = ((run, st, ign), r', w')"
  shows "run = configuration_to_list (fst (run_command env ''show running-config'' (device w)))"
    and "st = configuration_to_list (fst (run_command env ''show startup-config''
                 (snd (run_command env ''show running-config'' (device w)))))"
    and "ign = get_list_from_params (diff_ignore_lines m)"
    and "changed r' = changed r"
    and "commands r' = commands r"
    and "diff_against_found r' = diff_against_found r"
    and "startup_diff r' = startup_diff r"
    and "success r' = (if truthy (intended_config m) then Some (intent_diff m = []) else success r)"
    and "failed_diff_lines_between_intended_candidate r' =
           (if truthy (intended_config m) \<and> intent_diff m \<noteq> [] then Some (intent_diff m)
            else failed_diff_lines_between_intended_candidate r)"
    and "persist_count w' = persist_count w"
    and "skip_count w' = skip_count w"
  using reconcile_lists [of env m r w] reconcile_result [of env m r w]
    reconcile_counts [of env m r w]
  by (simp_all add: assms)

lemma save_config_counts:
  "persist_count (save_config env m w) = persist_count w + (if check_mode m then 0 else 1)"
  "skip_count (save_config env m w) = skip_count w + (if check_mode m then 1 else 0)"
  by (simp_all add: save_config_def persist_count_run_commands skip_count_run_commands
        warn_counts)

lemma save_policy_counts:
  "persist_count (save_policy env m (r, w)) =
     persist_count w + (if save_decision env m (r, w) \<and> \<not> check_mode m then 1 else 0)"
  "skip_count (save_policy env m (r, w)) =
     skip_count w + (if save_decision env m (r, w) \<and> check_mode m then 1 else 0)"
  by (auto simp: save_policy_def save_decision_def Let_def case_prod_beta save_config_counts
        persist_count_run_commands skip_count_run_commands write_memory_def)

lemma startup_diff_step_fields:
  "commands (startup_diff_step m st run ign r) = commands r"
  "success (startup_diff_step m st run ign r) = success r"
  "failed_diff_lines_between_intended_candidate (startup_diff_step m st run ign r) =
     failed_diff_lines_between_intended_candidate r"
  by (simp_all add: startup_diff_step_def Let_def)

lemma main_eq:
  assumes "main_apply env m d0 = (Inr (b, r4), w4)"
    and "reconcile env m (r4, w4) = ((run, st, ign), r5, w5)"
  shows "main env m d0 =
     (Inr ((startup_diff_step m st run ign r5)
             \<lparr>changed := final_changed b
                (fst (show_config env ''show running-config'' (save_policy env m (r5, w5))))\<rparr>),
      snd (show_config env ''show running-config'' (save_policy env m (r5, w5))))"
  using assms by (simp add: main_def main_finish_def Let_def case_prod_beta)

lemma main_counts:
  assumes "main_apply env m d0 = (Inr (b, r4), w4)"
    and "reconcile env m (r4, w4) = ((run, st, ign), r5, w5)"
  shows "persist_count (snd (main env m d0)) =
           (if save_decision env m (r5, w5) \<and> \<not> check_mode m then 1 else 0)"
    and "skip_count (snd (main env m d0)) =
           (if save_decision env m (r5, w5) \<and> check_mode m then 1 else 0)"
  using main_apply_counts [OF assms(1)] reconcile_facts(10,11) [OF assms(2)]
  by (simp_all add: main_eq [OF assms] show_config_counts save_policy_counts)

lemma count_list_filter_eq:
  "count_list (filter P xs) x = (if P x then count_list xs x else 0)"
  by (induction xs) auto












lemma main_result_fields:
  assumes "main_apply env m d0 = (Inr (b, r4), w4)"
  shows "\<exists>r w. main env m d0 = (Inr r, w)
     \<and> commands r = commands r4
     \<and> success r = (if truthy (intended_config m) then Some (intent_diff m = []) else None)
     \<and> failed_diff_lines_between_intended_candidate r =
         (if truthy (intended_config m) \<and> intent_diff m \<noteq> [] then Some (intent_diff m) else None)"
proof -
  obtain run st ign r5 w5 where rc: "reconcile env m (r4, w4) = ((run, st, ign), r5, w5)"
    by (metis prod_cases3)
  show ?thesis
    using reconcile_facts(5,8,9) [OF rc] main_apply_facts(3,4) [OF assms]
    by (simp add: main_eq [OF assms rc] startup_diff_step_fields)
qed

lemma run_commands_pair:
  "run_commands env [c1, c2] w =
     ([fst (run_command env c1 (device w)),
       fst (run_command env c2 (snd (run_command env c1 (device w))))],
      w\<lparr>device := snd (run_command env c2 (snd (run_command env c1 (device w)))),
        calls := calls w @ [RunCommands [c1, c2]]\<rparr>)"
  by (simp add: run_commands_def case_prod_beta)

lemma startup_diff_step_eq:
  "diff_against m = Some ''startup'' \<Longrightarrow>
     startup_diff_step m st run ign r =
       (if get_diff st run ign \<noteq> []
        then r\<lparr>diff_against_found := Some ''yes'', changed := True,
               startup_diff := Some (Some (get_diff st run ign))\<rparr>
        else r\<lparr>diff_against_found := Some ''no'', changed := False,
               startup_diff := Some None\<rparr>)"
  by (simp add: startup_diff_step_def Let_def)

lemma run_reconciled:
  assumes "check_args m = None" and "file_readable env m"
  obtains b r4 w4 run st ign r5 w5 where
    "main_apply env m d0 = (Inr (b, r4), w4)"
    and "reconcile env m (r4, w4) = ((run, st, ign), r5, w5)"
proof -
  from main_apply_Inr [OF assms]
  obtain b r4 w4 where a: "main_apply env m d0 = (Inr (b, r4), w4)" by blast
  obtain run st ign r5 w5 where "reconcile env m (r4, w4) = ((run, st, ign), r5, w5)"
    by (metis prod_cases3)
  with a that show thesis by blast
qed

lemma save_when_changed_persist_count:
  assumes "save_when m = ''changed''" and "check_args m = None" and "file_readable env m"
  shows "\<exists>before_config_list r4 w4 r w.
       main_apply env m d0 = (Inr (before_config_list, r4), w4)
     \<and> main env m d0 = (Inr r, w)
     \<and> persist_count w = (if changed r4 then 1 else 0)
     \<and> skip_count w = 0
     \<and> (changed r4 \<longleftrightarrow>
          truthy (lines m) \<and> get_candidate_config env m \<noteq> [] \<and> \<not> check_mode m)"
proof -
  from assms(2,3) obtain b r4 w4 run st ign r5 w5 where
    a: "main_apply env m d0 = (Inr (b, r4), w4)"
    and rc: "reconcile env m (r4, w4) = ((run, st, ign), r5, w5)"
    by (rule run_reconciled)
  have d: "save_decision env m (r5, w5) = changed r4"
    using assms(1) reconcile_facts(4) [OF rc] by (simp add: save_decision_def)
  have p: "changed r4 = pushed env m"
    by (rule main_apply_facts(1) [OF a])
  obtain r w where mn: "main env m d0 = (Inr r, w)"
    using main_eq [OF a rc] by blast
  from main_counts [OF a rc] mn d p
  have "persist_count w = (if changed r4 then 1 else 0) \<and> skip_count w = 0
     \<and> (changed r4 \<longleftrightarrow>
          truthy (lines m) \<and> get_candidate_config env m \<noteq> [] \<and> \<not> check_mode m)"
    by (auto simp: pushed_def)
  with a mn show ?thesis by blast
qed

lemmas run_defs =
  main_def main_apply_def main_finish_def check_args_def show_config_def run_commands_def
  apply_file_def backup_step_def apply_lines_def get_candidate_config_def opt_list_def
  edit_config_or_macro_def reconcile_def get_list_from_params_def get_intended_config_def
  get_diff_def ignore_list_def startswith_def strip_def is_space_def configuration_to_list_def
  save_policy_def save_config_def startup_diff_step_def final_changed_def initial_result_def
  warn_def write_memory_def Let_def

lemmas lab_defs = lab_env_def lab_run_command_def default_params_def

section \<open>The claims\<close>

text \<open>
  C1. The claim: the final \<^verbatim>\<open>changed\<close> flag is true exactly when the symmetric difference
  of the line sets of the running configuration before and after the run is not empty, so
  that a run which only removes lines reports a change. The run below removes one line of
  the running configuration of the sample device and adds none: the last statements of
  \<^verbatim>\<open>main\<close> subtract the lines before from the lines after, find nothing, and the run
  reports \<^verbatim>\<open>changed = False\<close>, while the line removed is in the difference of the lines
  before and the lines after.
\<close>

theorem removal_reported_unchanged:
  "main lab_env (default_params\<lparr>lines := Some [''no ip dns primary 8.8.4.7'']\<rparr>)
     ([''hostname a1'', ''ip dns primary 8.8.4.7''], []) =
   (Inr \<lparr>changed = False, result_warnings = [], backup_contents = None,
         commands = Some [''no ip dns primary 8.8.4.7''],
         updates = Some [''no ip dns primary 8.8.4.7''], success = None,
         failed_diff_lines_between_intended_candidate = None,
         diff_against_found = None, startup_diff = None\<rparr>,
    \<lparr>device = ([''hostname a1''], []),
     calls = [RunCommands [''show running-config''],
              EditConfig [''no ip dns primary 8.8.4.7''],
              RunCommands [''show running-config''],
              RunCommands [''show startup-config''],
              RunCommands [''show running-config'']],
     warnings = [NotInRunningConfig [''no ip dns primary 8.8.4.7'']]\<rparr>)
   \<and> set (fst (show_config lab_env ''show running-config''
              \<lparr>device = ([''hostname a1'', ''ip dns primary 8.8.4.7''], []), calls = [],
               warnings = []\<rparr>))
     - set (fst (show_config lab_env ''show running-config''
              (snd (main lab_env (default_params\<lparr>lines := Some [''no ip dns primary 8.8.4.7'']\<rparr>)
                     ([''hostname a1'', ''ip dns primary 8.8.4.7''], [])))))
     = {''ip dns primary 8.8.4.7''}"
  by (simp add: run_defs lab_defs)

text \<open>
  C2. \<^term>\<open>get_diff\<close> returns the lines of \<^verbatim>\<open>expected\<close>, in their order, that do not start with
  the comment marker, are none of the five built-in literals, are not in the list of the
  caller and are not a member of \<^verbatim>\<open>actual\<close>. An empty \<^verbatim>\<open>expected\<close> gives the empty list, an
  empty \<^verbatim>\<open>actual\<close> gives \<^verbatim>\<open>expected\<close> without its comment and ignored lines, and a line that is
  kept is kept as many times as it occurs in \<^verbatim>\<open>expected\<close>.
\<close>

theorem get_diff_membership_filter:
  "get_diff expected actual ign =
     filter (\<lambda>L. \<not> startswith L ''!''
                \<and> L \<notin> {'''', ''!'', ''exit-module'', ''Show default startup-config'',
                        ''Building configuration...''}
                \<and> L \<notin> set ign \<and> L \<notin> set actual) expected
   \<and> get_diff [] actual ign = []
   \<and> get_diff expected [] ign =
       filter (\<lambda>L. \<not> startswith L ''!''
                \<and> L \<notin> {'''', ''!'', ''exit-module'', ''Show default startup-config'',
                        ''Building configuration...''}
                \<and> L \<notin> set ign) expected
   \<and> count_list (get_diff expected actual ign) L =
       (if \<not> startswith L ''!''
           \<and> L \<notin> {'''', ''!'', ''exit-module'', ''Show default startup-config'',
                   ''Building configuration...''}
           \<and> L \<notin> set ign \<and> L \<notin> set actual
        then count_list expected L else 0)"
proof -
  have s: "set ignore_list = {'''', ''!'', ''exit-module'', ''Show default startup-config'',
                        ''Building configuration...''}"
    by (simp add: ignore_list_def)
  show ?thesis
    unfolding get_diff_filter s [symmetric] by (simp add: count_list_filter_eq)
qed

theorem get_diff_membership_filter_witness:
  "get_diff [''a'', ''!c'', ''a'', '''', ''b'', ''x'', ''exit-module''] [''b''] [''x''] = [''a'', ''a'']
   \<and> get_diff [''a'', ''!c'', ''a'', '''', ''b'', ''x''] [] [''x''] = [''a'', ''a'', ''b'']
   \<and> count_list (get_diff [''a'', ''!c'', ''a'', '''', ''b'', ''x''] [''b''] [''x'']) ''a'' = 2"
  using get_diff_membership_filter [of "[''a'', ''!c'', ''a'', '''', ''b'', ''x'', ''exit-module'']" "[''b'']" "[''x'']" "''a''"]
    get_diff_membership_filter [of "[''a'', ''!c'', ''a'', '''', ''b'', ''x'']" "[]" "[''x'']" "''a''"]
    get_diff_membership_filter [of "[''a'', ''!c'', ''a'', '''', ''b'', ''x'']" "[''b'']" "[''x'']" "''a''"]
  by (simp add: startswith_def)

text \<open>
  C3. A line of the ignore set, built-in or given by the caller, is never in the result of
  \<^term>\<open>get_diff\<close>; the match is equality of strings, so the entry \<^verbatim>\<open>clock set\<close> does not
  exclude the line \<^verbatim>\<open>clock set 00:00\<close>.
\<close>

theorem get_diff_never_ignored:
  "(L \<in> set ignore_list \<union> set ign \<longrightarrow> L \<notin> set (get_diff expected actual ign))
   \<and> (''clock set 00:00'' \<notin> set actual \<longrightarrow>
        get_diff [''clock set 00:00''] actual [''clock set''] = [''clock set 00:00''])"
  by (simp add: get_diff_filter startswith_def ignore_list_def)

theorem get_diff_never_ignored_witness:
  "''clock set'' \<in> set ignore_list \<union> set [''clock set'']
   \<and> ''clock set'' \<notin> set (get_diff [''clock set'', ''clock set 00:00''] [] [''clock set''])
   \<and> ''clock set 00:00'' \<notin> set ([] :: string list)
   \<and> get_diff [''clock set 00:00''] [] [''clock set''] = [''clock set 00:00'']"
  using get_diff_never_ignored [of "''clock set''" "[''clock set'']" "[''clock set'', ''clock set 00:00'']" "[]"]
  by simp

text \<open>
  C4. The claim: with \<^verbatim>\<open>save_when = changed\<close> the running configuration is saved exactly
  when the line sets of the running configuration before and after the run differ. The
  first run below sends a line that the running configuration already holds: the line set
  is the same before and after, the result reports \<^verbatim>\<open>changed = False\<close>, and
  \<^verbatim>\<open>write memory\<close> is run all the same, the flag tested at line 435 being the one set at
  line 386 when the commands were sent. The second run applies a file that adds a line to
  the running configuration: the result reports \<^verbatim>\<open>changed = True\<close>, and \<^verbatim>\<open>write memory\<close> is
  not run, the file step setting no flag.
\<close>

theorem save_when_changed_saves_unchanged:
  "main lab_env (default_params\<lparr>lines := Some [''ip dns primary 8.8.4.7''],
                               save_when := ''changed''\<rparr>)
     ([''ip dns primary 8.8.4.7''], []) =
   (Inr \<lparr>changed = False, result_warnings = [], backup_contents = None,
         commands = Some [''ip dns primary 8.8.4.7''],
         updates = Some [''ip dns primary 8.8.4.7''], success = None,
         failed_diff_lines_between_intended_candidate = None,
         diff_against_found = None, startup_diff = None\<rparr>,
    \<lparr>device = ([''ip dns primary 8.8.4.7''], [''ip dns primary 8.8.4.7'']),
     calls = [RunCommands [''show running-config''],
              EditConfig [''ip dns primary 8.8.4.7''],
              RunCommands [''show running-config''],
              RunCommands [''show startup-config''],
              RunCommands [write_memory],
              RunCommands [''show running-config'']],
     warnings = []\<rparr>)
   \<and> set (fst (show_config lab_env ''show running-config''
              \<lparr>device = ([''ip dns primary 8.8.4.7''], []), calls = [], warnings = []\<rparr>))
     = set (fst (show_config lab_env ''show running-config''
              (snd (main lab_env (default_params\<lparr>lines := Some [''ip dns primary 8.8.4.7''],
                                                 save_when := ''changed''\<rparr>)
                     ([''ip dns primary 8.8.4.7''], [])))))
   \<and> persist_count
       (snd (main lab_env (default_params\<lparr>lines := Some [''ip dns primary 8.8.4.7''],
                                          save_when := ''changed''\<rparr>)
               ([''ip dns primary 8.8.4.7''], []))) = 1
   \<and> main lab_env (default_params\<lparr>file_path := Some ''slb.txt'', save_when := ''changed''\<rparr>)
        ([''hostname a1''], []) =
      (Inr \<lparr>changed = True, result_warnings = [], backup_contents = None,
            commands = None, updates = None, success = None,
            failed_diff_lines_between_intended_candidate = None,
            diff_against_found = None, startup_diff = None\<rparr>,
       \<lparr>device = ([''hostname a1'', ''slb server s1 10.0.0.1''], []),
        calls = [RunCommands [''show running-config''],
                 RunCommands [''configure''],
                 RunCommands [''slb server s1 10.0.0.1''],
                 RunCommands [''exit''],
                 RunCommands [''show running-config''],
                 RunCommands [''show startup-config''],
                 RunCommands [''show running-config'']],
        warnings = []\<rparr>)
   \<and> persist_count
       (snd (main lab_env (default_params\<lparr>file_path := Some ''slb.txt'',
                                          save_when := ''changed''\<rparr>)
               ([''hostname a1''], []))) = 0"
  by (simp add: run_defs lab_defs persist_count_def)

text \<open>
  C5. A run whose \<^verbatim>\<open>file_path\<close> names a file that cannot be opened or read, its arguments
  having passed \<^term>\<open>check_args\<close>, fails with the file failure, and the only call made to
  the device before that is the first \<^verbatim>\<open>show running-config\<close>: no command of the file and no
  edit has been sent.
\<close>

theorem missing_file_fails_first:
  assumes "check_args m = None" and "file_path m = Some path" and "path \<noteq> []"
    and "open_readlines env path = None"
  shows "main env m d0 =
     (Inl FileNotFound,
      \<lparr>device = snd (run_command env ''show running-config'' d0),
       calls = [RunCommands [''show running-config'']], warnings = []\<rparr>)"
  using assms by (simp add: main_def main_apply_def show_config_eq apply_file_def)

theorem missing_file_fails_first_witness:
  "main lab_env (default_params\<lparr>file_path := Some ''absent.txt''\<rparr>) ([''hostname a1''], []) =
     (Inl FileNotFound,
      \<lparr>device = ([''hostname a1''], []),
       calls = [RunCommands [''show running-config'']], warnings = []\<rparr>)"
  using missing_file_fails_first [of "default_params\<lparr>file_path := Some ''absent.txt''\<rparr>"
      "''absent.txt''" lab_env "([''hostname a1''], [])"]
  by (simp add: check_args_def lab_defs)

text \<open>
  C6. With \<^verbatim>\<open>save_when = modified\<close>, the run asks the device for its running and its
  startup configuration once more, after the snapshots of lines 389 to 392, takes the
  \<^verbatim>\<open>sha1\<close> of each text under \<^verbatim>\<open>diff_ignore_lines\<close>, and calls \<^term>\<open>save_config\<close> exactly
  when the two differ: \<^verbatim>\<open>write memory\<close> is then run once, or, in check mode, the warning
  is recorded once in its place. When the two are equal neither happens.
\<close>

theorem save_when_modified_fingerprints:
  assumes "save_when m = ''modified''" and "check_args m = None" and "file_readable env m"
  shows "\<exists>before_config_list r4 w4 snaps r5 w5 output w6 r w.
       main_apply env m d0 = (Inr (before_config_list, r4), w4)
     \<and> reconcile env m (r4, w4) = (snaps, r5, w5)
     \<and> run_commands env [''show running-config'', ''show startup-config''] w5 = (output, w6)
     \<and> output = [fst (run_command env ''show running-config'' (device w5)),
                 fst (run_command env ''show startup-config''
                        (snd (run_command env ''show running-config'' (device w5))))]
     \<and> main env m d0 = (Inr r, w)
     \<and> persist_count w =
         (if network_config_sha1 env (output ! 0) (diff_ignore_lines m)
               \<noteq> network_config_sha1 env (output ! 1) (diff_ignore_lines m)
             \<and> \<not> check_mode m then 1 else 0)
     \<and> skip_count w =
         (if network_config_sha1 env (output ! 0) (diff_ignore_lines m)
               \<noteq> network_config_sha1 env (output ! 1) (diff_ignore_lines m)
             \<and> check_mode m then 1 else 0)"
proof -
  from assms(2,3) obtain b r4 w4 run st ign r5 w5 where
    a: "main_apply env m d0 = (Inr (b, r4), w4)"
    and rc: "reconcile env m (r4, w4) = ((run, st, ign), r5, w5)"
    by (rule run_reconciled)
  obtain outs w6 where
    f: "run_commands env [''show running-config'', ''show startup-config''] w5 = (outs, w6)"
    by (cases "run_commands env [''show running-config'', ''show startup-config''] w5")
  have d: "save_decision env m (r5, w5) \<longleftrightarrow>
             network_config_sha1 env (outs ! 0) (diff_ignore_lines m)
               \<noteq> network_config_sha1 env (outs ! 1) (diff_ignore_lines m)"
    using assms(1) f by (simp add: save_decision_def)
  obtain r w where mn: "main env m d0 = (Inr r, w)"
    using main_eq [OF a rc] by blast
  have o: "outs = [fst (run_command env ''show running-config'' (device w5)),
                 fst (run_command env ''show startup-config''
                        (snd (run_command env ''show running-config'' (device w5))))]"
    using f by (simp add: run_commands_pair)
  from main_counts [OF a rc] mn d
  have "persist_count w =
         (if network_config_sha1 env (outs ! 0) (diff_ignore_lines m)
               \<noteq> network_config_sha1 env (outs ! 1) (diff_ignore_lines m)
             \<and> \<not> check_mode m then 1 else 0)
     \<and> skip_count w =
         (if network_config_sha1 env (outs ! 0) (diff_ignore_lines m)
               \<noteq> network_config_sha1 env (outs ! 1) (diff_ignore_lines m)
             \<and> check_mode m then 1 else 0)"
    by simp
  with a rc f o mn show ?thesis by blast
qed

theorem save_when_modified_fingerprints_witness:
  "(\<exists>r w. main lab_env (default_params\<lparr>save_when := ''modified''\<rparr>) ([''hostname a1''], [])
             = (Inr r, w)
      \<and> persist_count w = 1 \<and> skip_count w = 0)
   \<and> (\<exists>r w. main lab_env (default_params\<lparr>save_when := ''modified''\<rparr>)
               ([''hostname a1''], [''hostname a1'']) = (Inr r, w)
      \<and> persist_count w = 0 \<and> skip_count w = 0)"
  using save_when_modified_fingerprints [of "default_params\<lparr>save_when := ''modified''\<rparr>"
      lab_env "([''hostname a1''], [])"]
    save_when_modified_fingerprints [of "default_params\<lparr>save_when := ''modified''\<rparr>"
      lab_env "([''hostname a1''], [''hostname a1''])"]
  by (simp add: check_args_def file_readable_def) (auto simp: run_defs lab_defs)

text \<open>
  C7. With \<^verbatim>\<open>diff_against = startup\<close>, the run computes \<^term>\<open>get_diff\<close> of the startup lines
  against the running lines of lines 389 to 392 under the stripped \<^verbatim>\<open>diff_ignore_lines\<close>. A
  result that is not empty is written as \<^verbatim>\<open>changed = True\<close>, \<^verbatim>\<open>diff_against_found = yes\<close> and
  \<^verbatim>\<open>startup_diff\<close>; an empty one as \<^verbatim>\<open>changed = False\<close>, \<^verbatim>\<open>diff_against_found = no\<close> and no
  \<^verbatim>\<open>startup_diff\<close>. In both cases the \<^verbatim>\<open>changed\<close> of the result of the run is computed
  afterwards from a last snapshot of the running configuration and the snapshot taken
  before the run: it is true exactly when the set of the lines of the last snapshot less
  the set of the lines of the first is not empty, whatever the step had written.
\<close>

theorem diff_against_startup_overridden:
  assumes "diff_against m = Some ''startup''" and "check_args m = None"
    and "file_readable env m"
  shows "\<exists>before_config_list r4 w4 running_config_list startup_config_list
           diff_ignore_lines_list r5 w5 after_config_list w8 r.
       main_apply env m d0 = (Inr (before_config_list, r4), w4)
     \<and> reconcile env m (r4, w4) =
         ((running_config_list, startup_config_list, diff_ignore_lines_list), r5, w5)
     \<and> show_config env ''show running-config'' (save_policy env m (r5, w5)) =
         (after_config_list, w8)
     \<and> main env m d0 = (Inr r, w8)
     \<and> before_config_list =
         configuration_to_list (fst (run_command env ''show running-config'' d0))
     \<and> running_config_list =
         configuration_to_list (fst (run_command env ''show running-config'' (device w4)))
     \<and> startup_config_list =
         configuration_to_list (fst (run_command env ''show startup-config''
            (snd (run_command env ''show running-config'' (device w4)))))
     \<and> diff_ignore_lines_list = get_list_from_params (diff_ignore_lines m)
     \<and> after_config_list =
         configuration_to_list (fst (run_command env ''show running-config''
            (device (save_policy env m (r5, w5)))))
     \<and> (let d = get_diff startup_config_list running_config_list diff_ignore_lines_list;
             written = startup_diff_step m startup_config_list running_config_list
                         diff_ignore_lines_list r5
         in if d \<noteq> []
            then changed written \<and> diff_against_found r = Some ''yes''
               \<and> startup_diff r = Some (Some d)
            else \<not> changed written \<and> diff_against_found r = Some ''no''
               \<and> startup_diff r = Some None)
     \<and> (changed r \<longleftrightarrow> set after_config_list - set before_config_list \<noteq> {})"
proof -
  from assms(2,3) obtain b r4 w4 run st ign r5 w5 where
    a: "main_apply env m d0 = (Inr (b, r4), w4)"
    and rc: "reconcile env m (r4, w4) = ((run, st, ign), r5, w5)"
    by (rule run_reconciled)
  obtain acl w8 where
    s: "show_config env ''show running-config'' (save_policy env m (r5, w5)) = (acl, w8)"
    by (cases "show_config env ''show running-config'' (save_policy env m (r5, w5))")
  then have acl: "acl = configuration_to_list (fst (run_command env ''show running-config''
            (device (save_policy env m (r5, w5)))))"
    by (simp add: show_config_eq)
  let ?r = "(startup_diff_step m st run ign r5)\<lparr>changed := final_changed b acl\<rparr>"
  have mn: "main env m d0 = (Inr ?r, w8)"
    by (simp add: main_eq [OF a rc] s)
  have "(let d = get_diff st run ign; written = startup_diff_step m st run ign r5
         in if d \<noteq> []
            then changed written \<and> diff_against_found ?r = Some ''yes''
               \<and> startup_diff ?r = Some (Some d)
            else \<not> changed written \<and> diff_against_found ?r = Some ''no''
               \<and> startup_diff ?r = Some None)
     \<and> (changed ?r \<longleftrightarrow> set acl - set b \<noteq> {})"
    by (simp add: startup_diff_step_eq [OF assms(1)] Let_def final_changed_def)
  with a rc s mn acl reconcile_facts(1,2,3) [OF rc] main_apply_facts(7) [OF a]
  show ?thesis by blast
qed

theorem diff_against_startup_overridden_witness:
  "(\<exists>r w. main lab_env (default_params\<lparr>diff_against := Some ''startup''\<rparr>)
            ([''hostname a1''], [''hostname a1'', ''ip dns primary 8.8.4.7'']) = (Inr r, w)
     \<and> diff_against_found r = Some ''yes''
     \<and> startup_diff r = Some (Some [''ip dns primary 8.8.4.7''])
     \<and> changed r = False)
   \<and> (\<exists>r w. main lab_env (default_params\<lparr>diff_against := Some ''startup'',
                                           lines := Some [''ip dns primary 8.8.4.7'']\<rparr>)
            ([''hostname a1''], [''hostname a1'']) = (Inr r, w)
     \<and> diff_against_found r = Some ''no''
     \<and> startup_diff r = Some None
     \<and> changed r = True)"
  using diff_against_startup_overridden [of "default_params\<lparr>diff_against := Some ''startup''\<rparr>"
      lab_env "([''hostname a1''], [''hostname a1'', ''ip dns primary 8.8.4.7''])"]
    diff_against_startup_overridden [of "default_params\<lparr>diff_against := Some ''startup'',
      lines := Some [''ip dns primary 8.8.4.7'']\<rparr>" lab_env "([''hostname a1''], [''hostname a1''])"]
  by (simp add: check_args_def file_readable_def) (auto simp: run_defs lab_defs)

text \<open>
  C8. When \<^verbatim>\<open>intended_config\<close> is given, the run, its arguments having passed
  \<^term>\<open>check_args\<close> and its file, if any, being readable, ends with a result: \<^verbatim>\<open>success\<close> is
  false, with the intended lines that \<^term>\<open>get_diff\<close> does not find in the stripped
  \<^verbatim>\<open>lines\<close>, when there are such lines, and true when there are none. For the intended lines
  \<^verbatim>\<open>a\<close>, \<^verbatim>\<open>b\<close> and the candidate \<^verbatim>\<open>a\<close> the result has \<^verbatim>\<open>success = False\<close> and the list \<^verbatim>\<open>b\<close>.
\<close>

theorem intended_config_mismatch:
  assumes "check_args m = None" and "file_readable env m" and "truthy (intended_config m)"
  shows "\<exists>r w. main env m d0 = (Inr r, w)
     \<and> (let found_diff = get_diff (map strip (opt_list (intended_config m)))
                            (get_list_from_params (lines m))
                            (get_list_from_params (diff_ignore_lines m))
        in if found_diff \<noteq> []
           then success r = Some False
              \<and> failed_diff_lines_between_intended_candidate r = Some found_diff
           else success r = Some True
              \<and> failed_diff_lines_between_intended_candidate r = None)"
proof -
  from main_apply_Inr [OF assms(1,2)]
  obtain b r4 w4 where "main_apply env m d0 = (Inr (b, r4), w4)" by blast
  from main_result_fields [OF this] assms(3) show ?thesis
    by (auto simp: intent_diff_def get_intended_config_def Let_def)
qed

theorem intended_config_mismatch_witness:
  "\<exists>r w. main lab_env (default_params\<lparr>intended_config := Some [''a'', ''b''], lines := Some [''a'']\<rparr>)
            ([], []) = (Inr r, w)
     \<and> success r = Some False
     \<and> failed_diff_lines_between_intended_candidate r = Some [''b'']"
  using intended_config_mismatch [of "default_params\<lparr>intended_config := Some [''a'', ''b''], lines := Some [''a'']\<rparr>"
      lab_env "([], [])"]
  by (simp add: check_args_def file_readable_def lab_defs get_diff_filter opt_list_def
        get_list_from_params_def strip_def is_space_def startswith_def ignore_list_def)




text \<open>
  C10. \<^term>\<open>configuration_to_list\<close> drops a raw line exactly when the line starts with the
  comment marker before it is stripped. A raw line made of whitespace followed by the
  marker is kept; stripped, it starts with the marker and is in the list; \<^term>\<open>get_diff\<close>
  skips it; and it counts in the comparison of the lines before and after the run.
\<close>

theorem configuration_to_list_raw_marker:
  "configuration_to_list txt = map strip (filter (\<lambda>l. \<not> startswith l ''!'') (split_nl txt))
   \<and> (l \<in> set (split_nl txt) \<and> l = ws @ CHR ''!'' # rest \<and> ws \<noteq> [] \<and> (\<forall>c \<in> set ws. is_space c)
        \<longrightarrow> \<not> startswith l ''!''
          \<and> strip l \<in> set (configuration_to_list txt)
          \<and> startswith (strip l) ''!''
          \<and> get_diff [strip l] actual ign = []
          \<and> (strip l \<notin> set before_config_list
                \<longrightarrow> final_changed before_config_list (configuration_to_list txt)))"
proof (intro conjI impI)
  show "configuration_to_list txt = map strip (filter (\<lambda>l. \<not> startswith l ''!'') (split_nl txt))"
    by (rule configuration_to_list_map_filter)
next
  assume a: "l \<in> set (split_nl txt) \<and> l = ws @ CHR ''!'' # rest \<and> ws \<noteq> [] \<and> (\<forall>c \<in> set ws. is_space c)"
  then obtain c cs where ws: "ws = c # cs" and "is_space c"
    by (cases ws) auto
  then have "c \<noteq> CHR ''!''" by (auto simp: is_space_def)
  with a ws show raw: "\<not> startswith l ''!''" by (simp add: startswith_def)
  from a have "l \<in> set (split_nl txt)" by blast
  with raw have "l \<in> set (filter (\<lambda>l. \<not> startswith l ''!'') (split_nl txt))"
    by simp
  then have "strip l \<in> strip ` set (filter (\<lambda>l. \<not> startswith l ''!'') (split_nl txt))"
    by (rule imageI)
  then show mem: "strip l \<in> set (configuration_to_list txt)"
    by (simp only: configuration_to_list_map_filter set_map)
  from a show bang: "startswith (strip l) ''!''"
    using strip_leading_space_bang [of ws rest] by simp
  then show "get_diff [strip l] actual ign = []"
    by (simp add: get_diff_filter)
  assume "strip l \<notin> set before_config_list"
  with mem show "final_changed before_config_list (configuration_to_list txt)"
    by (auto simp: final_changed_def)
qed

theorem configuration_to_list_raw_marker_witness:
  "configuration_to_list (''a'' @ [CHR 0x0A] @ '' !x'' @ [CHR 0x0A] @ ''!y'') = [''a'', ''!x'']
   \<and> get_diff [''!x''] [] [] = []
   \<and> final_changed [''a''] [''a'', ''!x'']"
  using configuration_to_list_raw_marker [of "''a'' @ [CHR 0x0A] @ '' !x'' @ [CHR 0x0A] @ ''!y''"
      "'' !x''" "'' ''" "''x''" "[]" "[]" "[''a'']"]
  by (simp add: startswith_def strip_def is_space_def final_changed_def)

end
